theory Spec2Isabelle
  imports Complex_Main
begin

section \<open>The request-normalization and dispatch middleware\<close>

text \<open>
  A shallow embedding of \<^verbatim>\<open>api/server/middleware/buildEndpointOption.js\<close>.
  The middleware parses the request body into a conversation, optionally replaces it by
  the preset of an enforced model spec, looks the provider's option builder up in a static
  table, calls it, and enriches the object it returns.

  The collaborators that the file imports (\<^verbatim>\<open>parseCompactConvo\<close>,
  \<^verbatim>\<open>EModelEndpoint\<close>, \<^verbatim>\<open>isAgentsEndpoint\<close>, the
  \<^verbatim>\<open>buildOptions\<close> of every endpoint module, \<^verbatim>\<open>getModelsConfig\<close>,
  \<^verbatim>\<open>processFiles\<close>) are defined elsewhere; they are parameters of the model,
  collected in the record \<open>env\<close>.
\<close>

subsection \<open>Data\<close>

text \<open>A thrown JavaScript exception.\<close>

datatype js_error = TypeError | Error string

text \<open>
  The members of the enum \<^verbatim>\<open>EModelEndpoint\<close> that the file uses. Their string
  values come from \<^verbatim>\<open>librechat-data-provider\<close>, so they are left open here.
\<close>

record EModelEndpoint =
  openAI :: string
  google :: string
  custom :: string
  agents :: string
  bedrock :: string
  azureOpenAI :: string
  anthropic :: string
  gptPlugins :: string
  assistants :: string
  azureAssistants :: string

text \<open>
  The nine endpoint modules required at the top of the file; each constructor stands for
  the function \<^verbatim>\<open><module>.buildOptions\<close>.
\<close>

datatype builder =
    openAI_buildOptions
  | google_buildOptions
  | custom_buildOptions
  | agents_buildOptions
  | bedrock_buildOptions
  | anthropic_buildOptions
  | gptPlugins_buildOptions
  | assistants_buildOptions
  | azureAssistants_buildOptions

text \<open>
  A conversation object: the request body, the preset of a model spec, and the value
  returned by the parser all have this shape. The fields the middleware reads are named;
  every other parameter (\<^verbatim>\<open>temperature\<close>, \<^verbatim>\<open>model\<close>, ...) lives in
  \<open>params\<close>, with values of an arbitrary type \<open>'v\<close>. An optional field is \<open>None\<close>
  when it is \<^verbatim>\<open>undefined\<close>.
\<close>

record 'v conversation =
  endpoint :: string
  endpointType :: "string option"
  spec :: "string option"
  tools :: "'v list option"
  files :: "'v list option"
  params :: "string \<rightharpoonup> 'v"

record 'v TModelSpec =
  name :: string
  preset :: "'v conversation"

text \<open>\<^verbatim>\<open>req.app.locals.modelSpecs\<close>: the catalog and its \<^verbatim>\<open>enforce\<close> flag.\<close>

record 'v TSpecsConfig =
  list :: "'v TModelSpec list option"
  enforce :: "bool option"

text \<open>The request: \<^verbatim>\<open>req.body\<close> and \<^verbatim>\<open>req.app.locals.modelSpecs\<close>.\<close>

record 'v request =
  body :: "'v conversation"
  modelSpecs :: "'v TSpecsConfig option"

text \<open>
  The object a builder returns, and that becomes \<^verbatim>\<open>req.body.endpointOption\<close>: a map
  from property names to values. A property holds a plain value or a promise that has
  not been awaited; \<open>'h\<close> is the type of promise handles.
\<close>

datatype ('v, 'h) field = Value 'v | Promise 'h

type_synonym ('v, 'h) options = "string \<rightharpoonup> ('v, 'h) field"

text \<open>
  JavaScript calls are positional, and the middleware calls a builder with three or
  with four arguments, so a call is modelled with the list of its arguments.
\<close>

datatype 'v arg = ArgReq "'v request" | ArgStr string | ArgConvo "'v conversation" | ArgUndefined

text \<open>The imported collaborators. A function that can throw returns a sum.\<close>

record ('v, 'h) env =
  EModelEndpoint :: EModelEndpoint
  parseCompactConvo :: "string \<Rightarrow> string option \<Rightarrow> 'v conversation \<Rightarrow> js_error + 'v conversation"
  isAgentsEndpoint :: "string \<Rightarrow> bool"
  buildOptions :: "builder \<Rightarrow> 'v arg list \<Rightarrow> js_error + ('v, 'h) options"
  getModelsConfig :: "'v request \<Rightarrow> js_error + 'v"
  processFiles :: "'v list \<Rightarrow> 'h"

text \<open>
  What a run of the middleware does, in order: the calls with an effect outside the
  function and the writes to the request.
\<close>

datatype ('v, 'h) effect =
    HandleError string
  | Invoke builder "'v arg list"
  | Assign_endpointOption "('v, 'h) options"
  | Await_getModelsConfig
  | Set_modelsConfig 'v
  | Call_processFiles "'v list"
  | Set_attachments 'h
  | Next

datatype completion = Returned | Threw js_error

record ('v, 'h) run =
  trace :: "('v, 'h) effect list"
  completion :: completion
  endpointOption :: "('v, 'h) options option"

subsection \<open>The dispatch table\<close>

text \<open>
  The object literal \<^verbatim>\<open>buildFunction\<close> (lines 15 to 26), keyed by the values of
  the enum. The updates are applied in the order of the literal, so a later entry
  replaces an earlier one with the same key, as in JavaScript. The map holds the
  literal's own properties; names that a JavaScript object inherits from
  \<^verbatim>\<open>Object.prototype\<close> are not part of it.
\<close>

definition buildFunction :: "EModelEndpoint \<Rightarrow> string \<rightharpoonup> builder" where
  "buildFunction E =
     [openAI E \<mapsto> openAI_buildOptions,
      google E \<mapsto> google_buildOptions,
      custom E \<mapsto> custom_buildOptions,
      agents E \<mapsto> agents_buildOptions,
      bedrock E \<mapsto> bedrock_buildOptions,
      azureOpenAI E \<mapsto> openAI_buildOptions,
      anthropic E \<mapsto> anthropic_buildOptions,
      gptPlugins E \<mapsto> gptPlugins_buildOptions,
      assistants E \<mapsto> assistants_buildOptions,
      azureAssistants E \<mapsto> azureAssistants_buildOptions]"


subsection \<open>Steps 1 and 2: parsing and spec enforcement (lines 29 to 73)\<close>

text \<open>
  \<^verbatim>\<open>return handleError(res, { text })\<close>: the middleware stops with the user-facing
  message \<open>text\<close>. The early return is the left injection of a sum.
\<close>

definition handleError :: "string \<Rightarrow> string + 'a" where
  "handleError text = Inl text"

text \<open>
  Truthiness of an optional string, for \<^verbatim>\<open>!spec\<close>: \<^verbatim>\<open>undefined\<close> and the
  empty string are falsy.
\<close>

definition truthy :: "string option \<Rightarrow> bool" where
  "truthy s = (case s of None \<Rightarrow> False | Some x \<Rightarrow> x \<noteq> [])"

text \<open>
  The guard of line 37,
  \<^verbatim>\<open>req.app.locals.modelSpecs?.list && req.app.locals.modelSpecs?.enforce\<close>,
  together with the destructuring of line 39: \<open>Some list\<close> when enforcement is active.
  An array is truthy even when it is empty.
\<close>

definition enforced_list :: "'v TSpecsConfig option \<Rightarrow> 'v TModelSpec list option" where
  "enforced_list ms =
     (case ms of
        None \<Rightarrow> None
      | Some m \<Rightarrow>
          (case list m of
             None \<Rightarrow> None
           | Some l \<Rightarrow> if enforce m = Some True then Some l else None))"

text \<open>
  The body of the \<^verbatim>\<open>if\<close> of line 37 (lines 39 to 72). \<^verbatim>\<open>tools\<close> is
  an array when it is present, so it is truthy exactly when it is present.
\<close>

definition specEnforcer ::
  "('v, 'h) env \<Rightarrow> 'v TModelSpec list \<Rightarrow> string \<Rightarrow> string option \<Rightarrow> 'v conversation
     \<Rightarrow> string + 'v conversation" where
  \<open>specEnforcer env lst ep epType parsedBody =
     (if \<not> truthy (spec parsedBody) then handleError ''No model spec selected''
      else
        (case find (\<lambda>s. Some (name s) = spec parsedBody) lst of
           None \<Rightarrow> handleError ''Invalid model spec''
         | Some currentModelSpec \<Rightarrow>
             if ep \<noteq> endpoint (preset currentModelSpec)
             then handleError ''Model spec mismatch''
             else if endpoint (preset currentModelSpec) \<noteq> gptPlugins (EModelEndpoint env)
                       \<and> tools (preset currentModelSpec) \<noteq> None
             then handleError
                    (''Only the "'' @ gptPlugins (EModelEndpoint env)
                       @ ''" endpoint can have tools defined in the preset'')
             else
               (case parseCompactConvo env ep epType (preset currentModelSpec) of
                  Inl error \<Rightarrow> handleError ''Error parsing model spec''
                | Inr parsedBody' \<Rightarrow> Inr parsedBody')))\<close>

text \<open>
  Lines 29 to 73: the conversation that reaches line 75, or the message of the
  \<^verbatim>\<open>handleError\<close> call that ended the request.
\<close>

definition normalizeConversation ::
  "('v, 'h) env \<Rightarrow> 'v request \<Rightarrow> string + 'v conversation" where
  "normalizeConversation env req =
     (case parseCompactConvo env (endpoint (body req)) (endpointType (body req)) (body req) of
        Inl error \<Rightarrow> handleError ''Error parsing conversation''
      | Inr parsedBody \<Rightarrow>
          (case enforced_list (modelSpecs req) of
             None \<Rightarrow> Inr parsedBody
           | Some lst \<Rightarrow>
               specEnforcer env lst (endpoint (body req)) (endpointType (body req)) parsedBody))"

subsection \<open>Steps 3 and 4: dispatch and enrichment (lines 75 to 89)\<close>

text \<open>\<^verbatim>\<open>endpointType ?? endpoint\<close>.\<close>

definition dispatchKey :: "'v conversation \<Rightarrow> string" where
  "dispatchKey b = (case endpointType b of None \<Rightarrow> endpoint b | Some t \<Rightarrow> t)"

text \<open>
  The arguments the selected function is called with (lines 76 and 79): the wrapper
  for the agents family puts the request in front of the three arguments.
\<close>

definition builderArgs :: "('v, 'h) env \<Rightarrow> 'v request \<Rightarrow> 'v conversation \<Rightarrow> 'v arg list" where
  "builderArgs env req parsedBody =
     (if isAgentsEndpoint env (endpoint (body req)) then [ArgReq req] else [])
     @ [ArgStr (endpoint (body req)),
        ArgConvo parsedBody,
        (case endpointType (body req) of None \<Rightarrow> ArgUndefined | Some t \<Rightarrow> ArgStr t)]"

text \<open>
  Lines 75 to 89. Calling \<^verbatim>\<open>undefined\<close> throws a \<^verbatim>\<open>TypeError\<close>. A builder
  that throws, or a rejected \<^verbatim>\<open>getModelsConfig\<close>, ends the run with that error.
  Line 85 tests the truthiness of \<^verbatim>\<open>req.body.files\<close>: an array is truthy, also
  when it is empty. The promise returned by \<^verbatim>\<open>processFiles\<close> is stored as it is.
  \<^verbatim>\<open>getModelsConfig\<close> is given the request as it came in; what it could read
  from the option object assigned on the line before is not modelled.
\<close>

definition dispatchAndEnrich ::
  "('v, 'h) env \<Rightarrow> 'v request \<Rightarrow> 'v conversation \<Rightarrow> ('v, 'h) run" where
  "dispatchAndEnrich env req parsedBody =
     (case buildFunction (EModelEndpoint env) (dispatchKey (body req)) of
        None \<Rightarrow> \<lparr>trace = [], completion = Threw TypeError, endpointOption = None\<rparr>
      | Some endpointFn \<Rightarrow>
          (let args = builderArgs env req parsedBody in
           case buildOptions env endpointFn args of
             Inl error \<Rightarrow>
               \<lparr>trace = [Invoke endpointFn args], completion = Threw error, endpointOption = None\<rparr>
           | Inr built \<Rightarrow>
               (case getModelsConfig env req of
                  Inl error \<Rightarrow>
                    \<lparr>trace = [Invoke endpointFn args, Assign_endpointOption built,
                              Await_getModelsConfig],
                     completion = Threw error,
                     endpointOption = Some built\<rparr>
                | Inr modelsConfig \<Rightarrow>
                    (case files (body req) of
                       None \<Rightarrow>
                         \<lparr>trace = [Invoke endpointFn args, Assign_endpointOption built,
                                   Await_getModelsConfig, Set_modelsConfig modelsConfig, Next],
                          completion = Returned,
                          endpointOption = Some (built(''modelsConfig'' \<mapsto> Value modelsConfig))\<rparr>
                     | Some fs \<Rightarrow>
                         \<lparr>trace = [Invoke endpointFn args, Assign_endpointOption built,
                                   Await_getModelsConfig, Set_modelsConfig modelsConfig,
                                   Call_processFiles fs, Set_attachments (processFiles env fs),
                                   Next],
                          completion = Returned,
                          endpointOption =
                            Some (built(''modelsConfig'' \<mapsto> Value modelsConfig,
                                        ''attachments'' \<mapsto> Promise (processFiles env fs)))\<rparr>))))"

subsection \<open>The middleware\<close>

definition buildEndpointOption :: "('v, 'h) env \<Rightarrow> 'v request \<Rightarrow> ('v, 'h) run" where
  "buildEndpointOption env req =
     (case normalizeConversation env req of
        Inl text \<Rightarrow> \<lparr>trace = [HandleError text], completion = Returned, endpointOption = None\<rparr>
      | Inr parsedBody \<Rightarrow> dispatchAndEnrich env req parsedBody)"

subsection \<open>Reading a run\<close>

text \<open>The builder calls of a trace, in order.\<close>

fun invocations :: "('v, 'h) effect list \<Rightarrow> (builder \<times> 'v arg list) list" where
  "invocations [] = []"
| "invocations (Invoke f args # es) = (f, args) # invocations es"
| "invocations (_ # es) = invocations es"


text \<open>The messages written with \<^verbatim>\<open>handleError\<close>, in order.\<close>

fun errorTexts :: "('v, 'h) effect list \<Rightarrow> string list" where
  "errorTexts [] = []"
| "errorTexts (HandleError text # es) = text # errorTexts es"
| "errorTexts (_ # es) = errorTexts es"

text \<open>\<^verbatim>\<open>req.body.endpointOption?.[k]\<close> after the run.\<close>

definition optionField :: "('v, 'h) run \<Rightarrow> string \<Rightarrow> ('v, 'h) field option" where
  "optionField r k = (case endpointOption r of None \<Rightarrow> None | Some opt \<Rightarrow> opt k)"

text \<open>The values of the enum, in the order of the dispatch table.\<close>

definition enumValues :: "EModelEndpoint \<Rightarrow> string list" where
  "enumValues E =
     [openAI E, google E, custom E, agents E, bedrock E, azureOpenAI E, anthropic E,
      gptPlugins E, assistants E, azureAssistants E]"

subsection \<open>A concrete environment and concrete requests\<close>

text \<open>
  Parameter values are JSON values, a pending promise is identified by the files it
  was started for, and the enum has the values of \<^verbatim>\<open>librechat-data-provider\<close>.
  The example parser rejects a conversation whose \<^verbatim>\<open>temperature\<close> is a string
  and otherwise returns the conversation with the endpoint fields it was called with.
\<close>

datatype json = JNull | JBool bool | JNum rat | JStr string | JArr "json list"

datatype promise = PendingFiles "json list"

definition exampleEndpoints :: EModelEndpoint where
  "exampleEndpoints =
     \<lparr>openAI = ''openAI'', google = ''google'', custom = ''custom'', agents = ''agents'',
      bedrock = ''bedrock'', azureOpenAI = ''azureOpenAI'', anthropic = ''anthropic'',
      gptPlugins = ''gptPlugins'', assistants = ''assistants'',
      azureAssistants = ''azureAssistants''\<rparr>"

definition exampleParse ::
  "string \<Rightarrow> string option \<Rightarrow> json conversation \<Rightarrow> js_error + json conversation" where
  "exampleParse ep epType c =
     (case params c ''temperature'' of
        Some (JStr s) \<Rightarrow> Inl (Error ''temperature: expected a number'')
      | _ \<Rightarrow> Inr (c\<lparr>endpoint := ep, endpointType := epType\<rparr>))"

definition exampleBuilt :: "(json, promise) options" where
  "exampleBuilt = [''endpoint'' \<mapsto> Value (JStr ''built'')]"

definition exampleEnv :: "(json, promise) env" where
  "exampleEnv =
     \<lparr>EModelEndpoint = exampleEndpoints,
      parseCompactConvo = exampleParse,
      isAgentsEndpoint = (\<lambda>e. e = ''agents''),
      buildOptions = (\<lambda>f args. Inr exampleBuilt),
      getModelsConfig = (\<lambda>req. Inr (JArr [])),
      processFiles = PendingFiles\<rparr>"

text \<open>A conversation with an endpoint and nothing else.\<close>

definition convo :: "string \<Rightarrow> json conversation" where
  "convo ep =
     \<lparr>endpoint = ep, endpointType = None, spec = None, tools = None, files = None,
      params = Map.empty\<rparr>"

text \<open>The spec \<^verbatim>\<open>S\<close> of the specification's example: openAI at temperature 0.2.\<close>

definition specS :: "json TModelSpec" where
  "specS = \<lparr>name = ''S'', preset = (convo ''openAI'')\<lparr>params := [''temperature'' \<mapsto> JNum (2 / 10)]\<rparr>\<rparr>"

text \<open>A spec for google that declares tools, and one whose preset does not parse.\<close>

definition specTools :: "json TModelSpec" where
  "specTools = \<lparr>name = ''T'', preset = (convo ''google'')\<lparr>tools := Some [JStr ''calculator'']\<rparr>\<rparr>"

definition specBroken :: "json TModelSpec" where
  "specBroken =
     \<lparr>name = ''B'', preset = (convo ''openAI'')\<lparr>params := [''temperature'' \<mapsto> JStr ''hot'']\<rparr>\<rparr>"

definition enforcedCatalog :: "json TSpecsConfig" where
  "enforcedCatalog = \<lparr>list = Some [specS, specTools, specBroken], enforce = Some True\<rparr>"

text \<open>
  The client of the specification's example: openAI, spec \<^verbatim>\<open>S\<close>,
  temperature 0.9, under the enforced catalog.
\<close>

definition requestS :: "json request" where
  "requestS =
     \<lparr>body = (convo ''openAI'')\<lparr>spec := Some ''S'', params := [''temperature'' \<mapsto> JNum (9 / 10)]\<rparr>,
      modelSpecs = Some enforcedCatalog\<rparr>"

text \<open>The same selection with other parameters.\<close>

definition requestHot :: "json request" where
  "requestHot =
     \<lparr>body = (convo ''openAI'')
               \<lparr>spec := Some ''S'',
                params := [''temperature'' \<mapsto> JNum (15 / 10), ''top_p'' \<mapsto> JNum 1]\<rparr>,
      modelSpecs = Some enforcedCatalog\<rparr>"

text \<open>The conversation the parser makes of the preset of \<^verbatim>\<open>S\<close>.\<close>

definition parsedS :: "json conversation" where
  "parsedS = (convo ''openAI'')\<lparr>params := [''temperature'' \<mapsto> JNum (2 / 10)]\<rparr>"

text \<open>Further requests, one for each path through the middleware.\<close>

definition disabledCatalog :: "json TSpecsConfig" where
  "disabledCatalog = \<lparr>list = Some [specS, specTools, specBroken], enforce = Some False\<rparr>"

text \<open>Enforcement is off; the client names a spec and sends its own temperature.\<close>

definition requestDisabled :: "json request" where
  "requestDisabled =
     \<lparr>body = (convo ''openAI'')\<lparr>spec := Some ''S'', params := [''temperature'' \<mapsto> JNum (9 / 10)]\<rparr>,
      modelSpecs = Some disabledCatalog\<rparr>"

text \<open>No catalog; the body carries an empty file list, or one file.\<close>

definition requestEmptyFiles :: "json request" where
  "requestEmptyFiles = \<lparr>body = (convo ''openAI'')\<lparr>files := Some []\<rparr>, modelSpecs = None\<rparr>"

definition requestWithFiles :: "json request" where
  "requestWithFiles =
     \<lparr>body = (convo ''openAI'')\<lparr>files := Some [JStr ''file-1'']\<rparr>, modelSpecs = None\<rparr>"

text \<open>Under the enforced catalog: no spec; spec \<^verbatim>\<open>S\<close> through another endpoint.\<close>

definition requestNoSpec :: "json request" where
  "requestNoSpec = \<lparr>body = convo ''openAI'', modelSpecs = Some enforcedCatalog\<rparr>"

definition requestMismatch :: "json request" where
  "requestMismatch =
     \<lparr>body = (convo ''anthropic'')\<lparr>spec := Some ''S''\<rparr>, modelSpecs = Some enforcedCatalog\<rparr>"

text \<open>
  Under the enforced catalog: spec \<^verbatim>\<open>T\<close> (google, with tools) through openAI and
  through google.
\<close>

definition requestToolsMismatch :: "json request" where
  "requestToolsMismatch =
     \<lparr>body = (convo ''openAI'')\<lparr>spec := Some ''T''\<rparr>, modelSpecs = Some enforcedCatalog\<rparr>"

definition requestTools :: "json request" where
  "requestTools =
     \<lparr>body = (convo ''google'')\<lparr>spec := Some ''T''\<rparr>, modelSpecs = Some enforcedCatalog\<rparr>"

text \<open>A body the parser rejects, and a spec whose preset the parser rejects.\<close>

definition requestBadClient :: "json request" where
  "requestBadClient =
     \<lparr>body = (convo ''openAI'')\<lparr>params := [''temperature'' \<mapsto> JStr ''hot'']\<rparr>,
      modelSpecs = Some enforcedCatalog\<rparr>"

definition requestBroken :: "json request" where
  "requestBroken =
     \<lparr>body = (convo ''openAI'')\<lparr>spec := Some ''B''\<rparr>, modelSpecs = Some enforcedCatalog\<rparr>"

text \<open>
  No catalog: the Azure variant; an identifier without a table entry; an endpoint type
  of the agents family on an endpoint that is not.
\<close>

definition requestAzure :: "json request" where
  "requestAzure = \<lparr>body = convo ''azureOpenAI'', modelSpecs = None\<rparr>"

definition requestUnknown :: "json request" where
  "requestUnknown = \<lparr>body = convo ''unknown'', modelSpecs = None\<rparr>"

definition requestAgentsType :: "json request" where
  "requestAgentsType =
     \<lparr>body = (convo ''openAI'')\<lparr>endpointType := Some ''agents''\<rparr>, modelSpecs = None\<rparr>"

section \<open>Properties\<close>

subsection \<open>Basic facts about a run\<close>

lemmas example_defs =
  exampleEnv_def exampleEndpoints_def exampleParse_def exampleBuilt_def convo_def specS_def
  specTools_def specBroken_def enforcedCatalog_def requestS_def parsedS_def
  disabledCatalog_def requestDisabled_def requestEmptyFiles_def requestWithFiles_def
  requestNoSpec_def requestMismatch_def requestToolsMismatch_def requestTools_def
  requestBadClient_def requestBroken_def requestAzure_def requestUnknown_def
  requestAgentsType_def requestHot_def

lemmas pipeline_defs =
  normalizeConversation_def specEnforcer_def handleError_def enforced_list_def truthy_def

lemma run_handled:
  "normalizeConversation env req = Inl text \<Longrightarrow>
   buildEndpointOption env req =
     \<lparr>trace = [HandleError text], completion = Returned, endpointOption = None\<rparr>"
  by (simp add: buildEndpointOption_def)

lemma run_dispatched:
  "normalizeConversation env req = Inr parsedBody \<Longrightarrow>
   buildEndpointOption env req = dispatchAndEnrich env req parsedBody"
  by (simp add: buildEndpointOption_def)

lemma dispatch_invocations:
  "buildFunction (EModelEndpoint env) (dispatchKey (body req)) = Some f \<Longrightarrow>
   invocations (trace (dispatchAndEnrich env req parsedBody))
     = [(f, builderArgs env req parsedBody)]"
  by (simp add: dispatchAndEnrich_def Let_def split: sum.splits option.splits)




lemma convo_in_builderArgs: "ArgConvo parsedBody \<in> set (builderArgs env req parsedBody)"
  by (simp add: builderArgs_def)

text \<open>What it takes to get through the enforcer.\<close>

lemma normalize_enforced:
  assumes "enforced_list (modelSpecs req) = Some lst"
    and "normalizeConversation env req = Inr parsedBody"
  shows "\<exists>clientBody currentModelSpec.
           parseCompactConvo env (endpoint (body req)) (endpointType (body req)) (body req)
             = Inr clientBody
         \<and> truthy (spec clientBody)
         \<and> find (\<lambda>s. Some (name s) = spec clientBody) lst = Some currentModelSpec
         \<and> endpoint (body req) = endpoint (preset currentModelSpec)
         \<and> parseCompactConvo env (endpoint (body req)) (endpointType (body req))
               (preset currentModelSpec) = Inr parsedBody"
  using assms
  by (auto simp: normalizeConversation_def specEnforcer_def handleError_def
           split: sum.splits option.splits if_splits)

text \<open>An enum has pairwise different values; then every key of the table keeps its entry.\<close>

lemma buildFunction_distinct:
  assumes "distinct (enumValues E)"
  shows "buildFunction E (openAI E) = Some openAI_buildOptions"
    and "buildFunction E (google E) = Some google_buildOptions"
    and "buildFunction E (custom E) = Some custom_buildOptions"
    and "buildFunction E (agents E) = Some agents_buildOptions"
    and "buildFunction E (bedrock E) = Some bedrock_buildOptions"
    and "buildFunction E (azureOpenAI E) = Some openAI_buildOptions"
    and "buildFunction E (anthropic E) = Some anthropic_buildOptions"
    and "buildFunction E (gptPlugins E) = Some gptPlugins_buildOptions"
    and "buildFunction E (assistants E) = Some assistants_buildOptions"
    and "buildFunction E (azureAssistants E) = Some azureAssistants_buildOptions"
  using assms by (auto simp: buildFunction_def enumValues_def)



lemmas run_defs = buildEndpointOption_def dispatchAndEnrich_def builderArgs_def dispatchKey_def
  buildFunction_def optionField_def

subsection \<open>An enforced spec replaces the client's parameters\<close>

text \<open>
  C1. When enforcement is active and the request gets through every check, the
  conversation that reaches line 75 is the parser's result on the preset of the spec
  the client named. The selected builder is called with that conversation, and any
  other request with the same endpoint, endpoint type and spec name yields the same
  conversation, whatever parameters it carries. The witness is the specification's
  example: the client sends temperature 0.9, the preset says 0.2, the builder gets 0.2.
\<close>

theorem enforced_preset_reaches_builder:
  assumes "enforced_list (modelSpecs req) = Some lst"
    and "normalizeConversation env req = Inr parsedBody"
  shows "\<exists>clientBody currentModelSpec.
           parseCompactConvo env (endpoint (body req)) (endpointType (body req)) (body req)
             = Inr clientBody
         \<and> find (\<lambda>s. Some (name s) = spec clientBody) lst = Some currentModelSpec
         \<and> parseCompactConvo env (endpoint (body req)) (endpointType (body req))
               (preset currentModelSpec) = Inr parsedBody
         \<and> buildEndpointOption env req = dispatchAndEnrich env req parsedBody
         \<and> (\<forall>f. buildFunction (EModelEndpoint env) (dispatchKey (body req)) = Some f \<longrightarrow>
                invocations (trace (buildEndpointOption env req))
                  = [(f, builderArgs env req parsedBody)])
         \<and> ArgConvo parsedBody \<in> set (builderArgs env req parsedBody)
         \<and> (\<forall>req' clientBody'.
                endpoint (body req') = endpoint (body req)
              \<and> endpointType (body req') = endpointType (body req)
              \<and> modelSpecs req' = modelSpecs req
              \<and> parseCompactConvo env (endpoint (body req')) (endpointType (body req')) (body req')
                   = Inr clientBody'
              \<and> spec clientBody' = spec clientBody
              \<longrightarrow> normalizeConversation env req' = Inr parsedBody)"
proof -
  from normalize_enforced [OF assms] obtain clientBody currentModelSpec where
    client: "parseCompactConvo env (endpoint (body req)) (endpointType (body req)) (body req)
               = Inr clientBody"
    and found: "find (\<lambda>s. Some (name s) = spec clientBody) lst = Some currentModelSpec"
    and again: "parseCompactConvo env (endpoint (body req)) (endpointType (body req))
                  (preset currentModelSpec) = Inr parsedBody"
    by blast
  have run: "buildEndpointOption env req = dispatchAndEnrich env req parsedBody"
    using assms(2) by (rule run_dispatched)
  have inv: "\<forall>f. buildFunction (EModelEndpoint env) (dispatchKey (body req)) = Some f \<longrightarrow>
               invocations (trace (buildEndpointOption env req))
                 = [(f, builderArgs env req parsedBody)]"
    by (simp add: run dispatch_invocations)
  have other: "normalizeConversation env req' = Inr parsedBody"
    if "endpoint (body req') = endpoint (body req)"
      and "endpointType (body req') = endpointType (body req)"
      and "modelSpecs req' = modelSpecs req"
      and "parseCompactConvo env (endpoint (body req')) (endpointType (body req')) (body req')
             = Inr clientBody'"
      and "spec clientBody' = spec clientBody"
    for req' clientBody'
  proof -
    have "normalizeConversation env req'
            = specEnforcer env lst (endpoint (body req)) (endpointType (body req)) clientBody'"
      using that assms(1) by (simp add: normalizeConversation_def)
    also have "\<dots> = specEnforcer env lst (endpoint (body req)) (endpointType (body req)) clientBody"
      using that(5) by (simp add: specEnforcer_def)
    also have "\<dots> = normalizeConversation env req"
      using client assms(1) by (simp add: normalizeConversation_def)
    finally show ?thesis using assms(2) by simp
  qed
  show ?thesis
    using client found again run inv convo_in_builderArgs other by blast
qed

theorem enforced_preset_reaches_builder_witness:
  "enforced_list (modelSpecs requestS) = Some [specS, specTools, specBroken]
   \<and> normalizeConversation exampleEnv requestS = Inr parsedS
   \<and> params (body requestS) ''temperature'' = Some (JNum (9 / 10))
   \<and> params parsedS ''temperature'' = Some (JNum (2 / 10))
   \<and> invocations (trace (buildEndpointOption exampleEnv requestS))
       = [(openAI_buildOptions, [ArgStr ''openAI'', ArgConvo parsedS, ArgUndefined])]
   \<and> params (body requestHot) ''temperature'' = Some (JNum (15 / 10))
   \<and> normalizeConversation exampleEnv requestHot = Inr parsedS"
proof -
  have active: "enforced_list (modelSpecs requestS) = Some [specS, specTools, specBroken]"
    by (simp add: enforced_list_def requestS_def enforcedCatalog_def)
  have passes: "normalizeConversation exampleEnv requestS = Inr parsedS"
    by (simp add: pipeline_defs example_defs)
  have entry: "buildFunction (EModelEndpoint exampleEnv) (dispatchKey (body requestS))
                 = Some openAI_buildOptions"
    by (simp add: buildFunction_def dispatchKey_def example_defs)
  have args: "builderArgs exampleEnv requestS parsedS
                = [ArgStr ''openAI'', ArgConvo parsedS, ArgUndefined]"
    by (simp add: builderArgs_def example_defs)
  have client: "parseCompactConvo exampleEnv (endpoint (body requestS))
                   (endpointType (body requestS)) (body requestS) = Inr (body requestS)"
    by (simp add: example_defs)
  have hot: "endpoint (body requestHot) = endpoint (body requestS)"
    "endpointType (body requestHot) = endpointType (body requestS)"
    "modelSpecs requestHot = modelSpecs requestS"
    "parseCompactConvo exampleEnv (endpoint (body requestHot))
       (endpointType (body requestHot)) (body requestHot) = Inr (body requestHot)"
    "spec (body requestHot) = spec (body requestS)"
    by (simp_all add: example_defs)
  from enforced_preset_reaches_builder [OF active passes] obtain clientBody where
    c: "parseCompactConvo exampleEnv (endpoint (body requestS))
          (endpointType (body requestS)) (body requestS) = Inr clientBody"
    and inv: "\<forall>f. buildFunction (EModelEndpoint exampleEnv) (dispatchKey (body requestS)) = Some f
               \<longrightarrow> invocations (trace (buildEndpointOption exampleEnv requestS))
                     = [(f, builderArgs exampleEnv requestS parsedS)]"
    and others: "\<forall>req' clientBody'.
                endpoint (body req') = endpoint (body requestS)
              \<and> endpointType (body req') = endpointType (body requestS)
              \<and> modelSpecs req' = modelSpecs requestS
              \<and> parseCompactConvo exampleEnv (endpoint (body req')) (endpointType (body req'))
                   (body req') = Inr clientBody'
              \<and> spec clientBody' = spec clientBody
              \<longrightarrow> normalizeConversation exampleEnv req' = Inr parsedS"
    by blast
  from c client have same: "clientBody = body requestS"
    by simp
  from inv entry
  have called: "invocations (trace (buildEndpointOption exampleEnv requestS))
          = [(openAI_buildOptions, builderArgs exampleEnv requestS parsedS)]"
    by blast
  from others hot same have again: "normalizeConversation exampleEnv requestHot = Inr parsedS"
    by blast
  from active passes args called again show ?thesis
    by (simp add: requestS_def requestHot_def parsedS_def)
qed

subsection \<open>Attachments\<close>




subsection \<open>The option object is assigned once, and never on a failure\<close>



subsection \<open>When the enforcer runs\<close>

text \<open>
  C4. The guard of line 37 holds exactly when \<^verbatim>\<open>modelSpecs\<close> is there, has a
  \<^verbatim>\<open>list\<close>, and \<^verbatim>\<open>enforce\<close> is true. When it does not hold, the
  conversation parsed from the client's body reaches line 75 as it is, whatever
  \<^verbatim>\<open>spec\<close> it carries, and it is what the selected builder is called with. When it
  holds, the result of steps 1 and 2 is the enforcer's.
\<close>

theorem enforcement_guard:
  "(enforced_list (modelSpecs req) \<noteq> None
      \<longleftrightarrow> (\<exists>m l. modelSpecs req = Some m \<and> list m = Some l \<and> enforce m = Some True))
   \<and> (\<forall>clientBody.
          parseCompactConvo env (endpoint (body req)) (endpointType (body req)) (body req)
            = Inr clientBody
          \<longrightarrow> (case enforced_list (modelSpecs req) of
                 None \<Rightarrow>
                   normalizeConversation env req = Inr clientBody
                 \<and> buildEndpointOption env req = dispatchAndEnrich env req clientBody
                 \<and> (\<forall>f. buildFunction (EModelEndpoint env) (dispatchKey (body req)) = Some f
                        \<longrightarrow> invocations (trace (buildEndpointOption env req))
                              = [(f, builderArgs env req clientBody)])
               | Some lst \<Rightarrow>
                   normalizeConversation env req
                     = specEnforcer env lst (endpoint (body req)) (endpointType (body req))
                         clientBody))"
proof -
  have guard: "enforced_list (modelSpecs req) \<noteq> None
      \<longleftrightarrow> (\<exists>m l. modelSpecs req = Some m \<and> list m = Some l \<and> enforce m = Some True)"
    by (auto simp: enforced_list_def split: option.splits)
  have rest: "case enforced_list (modelSpecs req) of
                 None \<Rightarrow>
                   normalizeConversation env req = Inr clientBody
                 \<and> buildEndpointOption env req = dispatchAndEnrich env req clientBody
                 \<and> (\<forall>f. buildFunction (EModelEndpoint env) (dispatchKey (body req)) = Some f
                        \<longrightarrow> invocations (trace (buildEndpointOption env req))
                              = [(f, builderArgs env req clientBody)])
               | Some lst \<Rightarrow>
                   normalizeConversation env req
                     = specEnforcer env lst (endpoint (body req)) (endpointType (body req))
                         clientBody"
    if client: "parseCompactConvo env (endpoint (body req)) (endpointType (body req)) (body req)
            = Inr clientBody" for clientBody
  proof (cases "enforced_list (modelSpecs req)")
    case None
    with client have n: "normalizeConversation env req = Inr clientBody"
      by (simp add: normalizeConversation_def)
    then have "buildEndpointOption env req = dispatchAndEnrich env req clientBody"
      by (rule run_dispatched)
    with n None show ?thesis
      by (simp add: dispatch_invocations)
  next
    case (Some lst)
    with client show ?thesis
      by (simp add: normalizeConversation_def)
  qed
  from guard rest show ?thesis by blast
qed

theorem enforcement_guard_witness:
  "enforced_list (modelSpecs requestDisabled) = None
   \<and> spec (body requestDisabled) = Some ''S''
   \<and> parseCompactConvo exampleEnv (endpoint (body requestDisabled))
         (endpointType (body requestDisabled)) (body requestDisabled)
       = Inr (body requestDisabled)
   \<and> normalizeConversation exampleEnv requestDisabled = Inr (body requestDisabled)
   \<and> invocations (trace (buildEndpointOption exampleEnv requestDisabled))
       = [(openAI_buildOptions,
           [ArgStr ''openAI'', ArgConvo (body requestDisabled), ArgUndefined])]
   \<and> enforced_list (modelSpecs requestS) \<noteq> None
   \<and> normalizeConversation exampleEnv requestS
       = specEnforcer exampleEnv [specS, specTools, specBroken] ''openAI'' None (body requestS)"
proof -
  have off: "enforced_list (modelSpecs requestDisabled) = None"
    by (simp add: enforced_list_def example_defs)
  have named: "spec (body requestDisabled) = Some ''S''"
    by (simp add: example_defs)
  have client: "parseCompactConvo exampleEnv (endpoint (body requestDisabled))
         (endpointType (body requestDisabled)) (body requestDisabled)
       = Inr (body requestDisabled)"
    by (simp add: example_defs)
  have entry: "buildFunction (EModelEndpoint exampleEnv) (dispatchKey (body requestDisabled))
                 = Some openAI_buildOptions"
    by (simp add: buildFunction_def dispatchKey_def example_defs)
  have args: "builderArgs exampleEnv requestDisabled (body requestDisabled)
                = [ArgStr ''openAI'', ArgConvo (body requestDisabled), ArgUndefined]"
    by (simp add: builderArgs_def example_defs)
  have on: "enforced_list (modelSpecs requestS) = Some [specS, specTools, specBroken]"
    by (simp add: enforced_list_def requestS_def enforcedCatalog_def)
  have clientS: "parseCompactConvo exampleEnv (endpoint (body requestS))
         (endpointType (body requestS)) (body requestS) = Inr (body requestS)"
    by (simp add: example_defs)
  have epS: "endpoint (body requestS) = ''openAI''" "endpointType (body requestS) = None"
    by (simp_all add: example_defs)
  from enforcement_guard [of requestDisabled exampleEnv] off client
  have verbatim: "normalizeConversation exampleEnv requestDisabled = Inr (body requestDisabled)"
    and inv: "\<forall>f. buildFunction (EModelEndpoint exampleEnv) (dispatchKey (body requestDisabled))
                    = Some f
               \<longrightarrow> invocations (trace (buildEndpointOption exampleEnv requestDisabled))
                     = [(f, builderArgs exampleEnv requestDisabled (body requestDisabled))]"
    by auto
  from enforcement_guard [of requestS exampleEnv] on clientS epS
  have enf: "normalizeConversation exampleEnv requestS
       = specEnforcer exampleEnv [specS, specTools, specBroken] ''openAI'' None (body requestS)"
    by auto
  from inv entry args
  have "invocations (trace (buildEndpointOption exampleEnv requestDisabled))
       = [(openAI_buildOptions,
           [ArgStr ''openAI'', ArgConvo (body requestDisabled), ArgUndefined])]"
    by simp
  with off named client verbatim on enf show ?thesis by simp
qed

subsection \<open>The checks of the enforcer\<close>

text \<open>
  C5. Enforcement is active, the parsed conversation selects a spec (its \<^verbatim>\<open>spec\<close>
  is a non-empty string, so line 42 does not fire) that is the name of a catalog entry, and
  the request's endpoint differs from the endpoint of that entry's preset: the run ends with
  the message of line 52, and no builder is called.
\<close>

theorem spec_mismatch:
  assumes "parseCompactConvo env (endpoint (body req)) (endpointType (body req)) (body req)
             = Inr clientBody"
    and "enforced_list (modelSpecs req) = Some lst"
    and "truthy (spec clientBody)"
    and "find (\<lambda>s. Some (name s) = spec clientBody) lst = Some currentModelSpec"
    and "endpoint (body req) \<noteq> endpoint (preset currentModelSpec)"
  shows "buildEndpointOption env req
           = \<lparr>trace = [HandleError ''Model spec mismatch''], completion = Returned,
              endpointOption = None\<rparr>
       \<and> invocations (trace (buildEndpointOption env req)) = []"
proof -
  have "normalizeConversation env req = Inl ''Model spec mismatch''"
    using assms by (simp add: normalizeConversation_def specEnforcer_def handleError_def)
  then show ?thesis by (simp add: run_handled)
qed

theorem spec_mismatch_witness:
  "enforced_list (modelSpecs requestMismatch) = Some [specS, specTools, specBroken]
   \<and> find (\<lambda>s. Some (name s) = Some ''S'') [specS, specTools, specBroken] = Some specS
   \<and> endpoint (body requestMismatch) = ''anthropic''
   \<and> endpoint (preset specS) = ''openAI''
   \<and> errorTexts (trace (buildEndpointOption exampleEnv requestMismatch))
       = [''Model spec mismatch'']
   \<and> invocations (trace (buildEndpointOption exampleEnv requestMismatch)) = []"
proof -
  have client: "parseCompactConvo exampleEnv (endpoint (body requestMismatch))
         (endpointType (body requestMismatch)) (body requestMismatch)
       = Inr (body requestMismatch)"
    by (simp add: example_defs)
  have on: "enforced_list (modelSpecs requestMismatch) = Some [specS, specTools, specBroken]"
    by (simp add: enforced_list_def example_defs)
  have sel: "truthy (spec (body requestMismatch))"
    by (simp add: truthy_def example_defs)
  have found: "find (\<lambda>s. Some (name s) = spec (body requestMismatch))
                 [specS, specTools, specBroken] = Some specS"
    by (simp add: example_defs)
  have differ: "endpoint (body requestMismatch) \<noteq> endpoint (preset specS)"
    by (simp add: example_defs)
  from spec_mismatch [OF client on sel found differ]
  have "errorTexts (trace (buildEndpointOption exampleEnv requestMismatch))
          = [''Model spec mismatch'']"
    and "invocations (trace (buildEndpointOption exampleEnv requestMismatch)) = []"
    by simp_all
  with on found show ?thesis by (simp add: example_defs)
qed

text \<open>
  C6, as stated, fails: the endpoint comparison of line 51 comes before the tools check
  of line 55. A request through openAI that selects a google spec with tools is answered
  with the mismatch message, not with the tools message.
\<close>

theorem tools_check_after_mismatch:
  "enforced_list (modelSpecs requestToolsMismatch) = Some [specS, specTools, specBroken]
   \<and> spec (body requestToolsMismatch) = Some ''T''
   \<and> endpoint (body requestToolsMismatch) = ''openAI''
   \<and> name specS = ''S''
   \<and> name specTools = ''T''
   \<and> tools (preset specTools) = Some [JStr ''calculator'']
   \<and> endpoint (preset specTools) = ''google''
   \<and> gptPlugins (EModelEndpoint exampleEnv) = ''gptPlugins''
   \<and> buildEndpointOption exampleEnv requestToolsMismatch
       = \<lparr>trace = [HandleError ''Model spec mismatch''], completion = Returned,
          endpointOption = None\<rparr>"
  by (simp add: run_defs pipeline_defs example_defs)

text \<open>
  C6, amended. Enforcement is active, the selected spec is found, and the request's
  endpoint equals the endpoint of its preset. If the preset declares \<^verbatim>\<open>tools\<close> and
  that endpoint is not \<^verbatim>\<open>EModelEndpoint.gptPlugins\<close>, the run ends with the message
  of line 60, which quotes the value of \<^verbatim>\<open>EModelEndpoint.gptPlugins\<close>; no builder is
  called.
\<close>

theorem tools_not_allowed:
  assumes \<open>parseCompactConvo env (endpoint (body req)) (endpointType (body req)) (body req)
             = Inr clientBody\<close>
    and \<open>enforced_list (modelSpecs req) = Some lst\<close>
    and \<open>truthy (spec clientBody)\<close>
    and \<open>find (\<lambda>s. Some (name s) = spec clientBody) lst = Some currentModelSpec\<close>
    and \<open>endpoint (body req) = endpoint (preset currentModelSpec)\<close>
    and \<open>tools (preset currentModelSpec) \<noteq> None\<close>
    and \<open>endpoint (preset currentModelSpec) \<noteq> gptPlugins (EModelEndpoint env)\<close>
  shows \<open>buildEndpointOption env req
           = \<lparr>trace = [HandleError
                         (''Only the "'' @ gptPlugins (EModelEndpoint env)
                            @ ''" endpoint can have tools defined in the preset'')],
              completion = Returned, endpointOption = None\<rparr>
       \<and> invocations (trace (buildEndpointOption env req)) = []\<close>
proof -
  have \<open>normalizeConversation env req
          = Inl (''Only the "'' @ gptPlugins (EModelEndpoint env)
                   @ ''" endpoint can have tools defined in the preset'')\<close>
    using assms by (simp add: normalizeConversation_def specEnforcer_def handleError_def)
  then show ?thesis by (simp add: run_handled)
qed

theorem tools_not_allowed_witness:
  \<open>enforced_list (modelSpecs requestTools) = Some [specS, specTools, specBroken]
   \<and> find (\<lambda>s. Some (name s) = Some ''T'') [specS, specTools, specBroken] = Some specTools
   \<and> endpoint (body requestTools) = endpoint (preset specTools)
   \<and> tools (preset specTools) = Some [JStr ''calculator'']
   \<and> errorTexts (trace (buildEndpointOption exampleEnv requestTools))
       = [''Only the "gptPlugins" endpoint can have tools defined in the preset'']
   \<and> invocations (trace (buildEndpointOption exampleEnv requestTools)) = []\<close>
proof -
  have client: "parseCompactConvo exampleEnv (endpoint (body requestTools))
         (endpointType (body requestTools)) (body requestTools) = Inr (body requestTools)"
    by (simp add: example_defs)
  have on: "enforced_list (modelSpecs requestTools) = Some [specS, specTools, specBroken]"
    by (simp add: enforced_list_def example_defs)
  have sel: "truthy (spec (body requestTools))"
    by (simp add: truthy_def example_defs)
  have found: "find (\<lambda>s. Some (name s) = spec (body requestTools))
                 [specS, specTools, specBroken] = Some specTools"
    by (simp add: example_defs)
  have same: "endpoint (body requestTools) = endpoint (preset specTools)"
    by (simp add: example_defs)
  have declared: "tools (preset specTools) \<noteq> None"
    by (simp add: example_defs)
  have other: "endpoint (preset specTools) \<noteq> gptPlugins (EModelEndpoint exampleEnv)"
    by (simp add: example_defs)
  from tools_not_allowed [OF client on sel found same declared other]
  have \<open>errorTexts (trace (buildEndpointOption exampleEnv requestTools))
          = [''Only the "'' @ gptPlugins (EModelEndpoint exampleEnv)
               @ ''" endpoint can have tools defined in the preset'']\<close>
    and "invocations (trace (buildEndpointOption exampleEnv requestTools)) = []"
    by simp_all
  with on found same show ?thesis by (simp add: example_defs)
qed

subsection \<open>Dispatch\<close>

text \<open>
  C7. The key is \<^verbatim>\<open>endpointType\<close> when it is present and \<^verbatim>\<open>endpoint\<close>
  otherwise. When the table has an entry for the key, that function is the one builder
  called in the run, and the normalized conversation is among its arguments, as it came
  out of steps 1 and 2. With an enum of pairwise different values, the keys of openAI and of
  its Azure variant both map to \<^verbatim>\<open>openAI.buildOptions\<close>.
\<close>

theorem dispatch_selects_mapped_builder:
  assumes "normalizeConversation env req = Inr parsedBody"
    and "buildFunction (EModelEndpoint env) (dispatchKey (body req)) = Some f"
  shows "invocations (trace (buildEndpointOption env req)) = [(f, builderArgs env req parsedBody)]
       \<and> ArgConvo parsedBody \<in> set (builderArgs env req parsedBody)
       \<and> dispatchKey (body req)
           = (case endpointType (body req) of None \<Rightarrow> endpoint (body req) | Some t \<Rightarrow> t)
       \<and> (distinct (enumValues (EModelEndpoint env)) \<longrightarrow>
            buildFunction (EModelEndpoint env) (openAI (EModelEndpoint env))
              = Some openAI_buildOptions
          \<and> buildFunction (EModelEndpoint env) (azureOpenAI (EModelEndpoint env))
              = Some openAI_buildOptions)"
  using assms
  by (simp add: run_dispatched dispatch_invocations convo_in_builderArgs dispatchKey_def
        buildFunction_distinct)

theorem dispatch_selects_mapped_builder_witness:
  "normalizeConversation exampleEnv requestAzure = Inr (body requestAzure)
   \<and> dispatchKey (body requestAzure) = ''azureOpenAI''
   \<and> distinct (enumValues (EModelEndpoint exampleEnv))
   \<and> buildFunction (EModelEndpoint exampleEnv) ''azureOpenAI'' = Some openAI_buildOptions
   \<and> buildFunction (EModelEndpoint exampleEnv) ''openAI'' = Some openAI_buildOptions
   \<and> invocations (trace (buildEndpointOption exampleEnv requestAzure))
       = [(openAI_buildOptions, [ArgStr ''azureOpenAI'', ArgConvo (body requestAzure), ArgUndefined])]"
proof -
  have n: "normalizeConversation exampleEnv requestAzure = Inr (body requestAzure)"
    by (simp add: pipeline_defs example_defs)
  have key: "dispatchKey (body requestAzure) = ''azureOpenAI''"
    by (simp add: dispatchKey_def example_defs)
  have entry: "buildFunction (EModelEndpoint exampleEnv) (dispatchKey (body requestAzure))
                 = Some openAI_buildOptions"
    by (simp add: buildFunction_def dispatchKey_def example_defs)
  have d: "distinct (enumValues (EModelEndpoint exampleEnv))"
    by (simp add: enumValues_def example_defs)
  have args: "builderArgs exampleEnv requestAzure (body requestAzure)
                = [ArgStr ''azureOpenAI'', ArgConvo (body requestAzure), ArgUndefined]"
    by (simp add: builderArgs_def example_defs)
  have vals: "openAI (EModelEndpoint exampleEnv) = ''openAI''"
    "azureOpenAI (EModelEndpoint exampleEnv) = ''azureOpenAI''"
    by (simp_all add: example_defs)
  from dispatch_selects_mapped_builder [OF n entry] d vals args
  have "invocations (trace (buildEndpointOption exampleEnv requestAzure))
       = [(openAI_buildOptions, [ArgStr ''azureOpenAI'', ArgConvo (body requestAzure), ArgUndefined])]"
    and "buildFunction (EModelEndpoint exampleEnv) ''azureOpenAI'' = Some openAI_buildOptions"
    and "buildFunction (EModelEndpoint exampleEnv) ''openAI'' = Some openAI_buildOptions"
    by simp_all
  with n key d show ?thesis by simp
qed

subsection \<open>The two parse failures\<close>

text \<open>
  C8. Both calls are calls of \<^verbatim>\<open>parseCompactConvo\<close> with the request's endpoint
  and endpoint type; only the conversation differs (the body, the preset). A failure of
  the first ends the run with the message \<^verbatim>\<open>Error parsing conversation\<close>, a failure
  of the second with \<^verbatim>\<open>Error parsing model spec\<close>, and the two messages differ.
\<close>

theorem parse_failures_are_distinct:
  "(\<forall>e. parseCompactConvo env (endpoint (body req)) (endpointType (body req)) (body req) = Inl e
        \<longrightarrow> buildEndpointOption env req
              = \<lparr>trace = [HandleError ''Error parsing conversation''], completion = Returned,
                 endpointOption = None\<rparr>)
   \<and> (\<forall>clientBody lst currentModelSpec e.
          parseCompactConvo env (endpoint (body req)) (endpointType (body req)) (body req)
            = Inr clientBody
        \<and> enforced_list (modelSpecs req) = Some lst
        \<and> truthy (spec clientBody)
        \<and> find (\<lambda>s. Some (name s) = spec clientBody) lst = Some currentModelSpec
        \<and> endpoint (body req) = endpoint (preset currentModelSpec)
        \<and> (tools (preset currentModelSpec) = None
             \<or> endpoint (preset currentModelSpec) = gptPlugins (EModelEndpoint env))
        \<and> parseCompactConvo env (endpoint (body req)) (endpointType (body req))
             (preset currentModelSpec) = Inl e
        \<longrightarrow> buildEndpointOption env req
              = \<lparr>trace = [HandleError ''Error parsing model spec''], completion = Returned,
                 endpointOption = None\<rparr>)
   \<and> ''Error parsing conversation'' \<noteq> ''Error parsing model spec''"
proof -
  have a: "buildEndpointOption env req
              = \<lparr>trace = [HandleError ''Error parsing conversation''], completion = Returned,
                 endpointOption = None\<rparr>"
    if "parseCompactConvo env (endpoint (body req)) (endpointType (body req)) (body req) = Inl e"
    for e
  proof -
    have "normalizeConversation env req = Inl ''Error parsing conversation''"
      using that by (simp add: normalizeConversation_def handleError_def)
    then show ?thesis by (rule run_handled)
  qed
  have b: "buildEndpointOption env req
              = \<lparr>trace = [HandleError ''Error parsing model spec''], completion = Returned,
                 endpointOption = None\<rparr>"
    if "parseCompactConvo env (endpoint (body req)) (endpointType (body req)) (body req)
            = Inr clientBody"
      and "enforced_list (modelSpecs req) = Some lst"
      and "truthy (spec clientBody)"
      and "find (\<lambda>s. Some (name s) = spec clientBody) lst = Some currentModelSpec"
      and "endpoint (body req) = endpoint (preset currentModelSpec)"
      and "tools (preset currentModelSpec) = None
             \<or> endpoint (preset currentModelSpec) = gptPlugins (EModelEndpoint env)"
      and "parseCompactConvo env (endpoint (body req)) (endpointType (body req))
             (preset currentModelSpec) = Inl e"
    for clientBody lst currentModelSpec e
  proof -
    have "normalizeConversation env req = Inl ''Error parsing model spec''"
      using that by (auto simp: normalizeConversation_def specEnforcer_def handleError_def)
    then show ?thesis by (rule run_handled)
  qed
  have c: "''Error parsing conversation'' \<noteq> ''Error parsing model spec''"
    by simp
  from a b c show ?thesis by blast
qed

theorem parse_failures_are_distinct_witness:
  "parseCompactConvo exampleEnv (endpoint (body requestBadClient))
       (endpointType (body requestBadClient)) (body requestBadClient)
     = Inl (Error ''temperature: expected a number'')
   \<and> errorTexts (trace (buildEndpointOption exampleEnv requestBadClient))
       = [''Error parsing conversation'']
   \<and> parseCompactConvo exampleEnv (endpoint (body requestBroken))
       (endpointType (body requestBroken)) (preset specBroken)
     = Inl (Error ''temperature: expected a number'')
   \<and> errorTexts (trace (buildEndpointOption exampleEnv requestBroken))
       = [''Error parsing model spec'']"
proof -
  have bad: "parseCompactConvo exampleEnv (endpoint (body requestBadClient))
       (endpointType (body requestBadClient)) (body requestBadClient)
     = Inl (Error ''temperature: expected a number'')"
    by (simp add: example_defs)
  have client: "parseCompactConvo exampleEnv (endpoint (body requestBroken))
         (endpointType (body requestBroken)) (body requestBroken) = Inr (body requestBroken)"
    by (simp add: example_defs)
  have on: "enforced_list (modelSpecs requestBroken) = Some [specS, specTools, specBroken]"
    by (simp add: enforced_list_def example_defs)
  have sel: "truthy (spec (body requestBroken))"
    by (simp add: truthy_def example_defs)
  have found: "find (\<lambda>s. Some (name s) = spec (body requestBroken))
                 [specS, specTools, specBroken] = Some specBroken"
    by (simp add: example_defs)
  have same: "endpoint (body requestBroken) = endpoint (preset specBroken)"
    by (simp add: example_defs)
  have notools: "tools (preset specBroken) = None"
    by (simp add: example_defs)
  have broken: "parseCompactConvo exampleEnv (endpoint (body requestBroken))
       (endpointType (body requestBroken)) (preset specBroken)
     = Inl (Error ''temperature: expected a number'')"
    by (simp add: example_defs)
  note a = parse_failures_are_distinct [of exampleEnv requestBadClient]
  note b = parse_failures_are_distinct [of exampleEnv requestBroken]
  from a bad have "buildEndpointOption exampleEnv requestBadClient
              = \<lparr>trace = [HandleError ''Error parsing conversation''], completion = Returned,
                 endpointOption = None\<rparr>"
    by blast
  then have t1: "errorTexts (trace (buildEndpointOption exampleEnv requestBadClient))
       = [''Error parsing conversation'']"
    by simp
  from b client on sel found same notools broken
  have "buildEndpointOption exampleEnv requestBroken
              = \<lparr>trace = [HandleError ''Error parsing model spec''], completion = Returned,
                 endpointOption = None\<rparr>"
    by blast
  then have t2: "errorTexts (trace (buildEndpointOption exampleEnv requestBroken))
       = [''Error parsing model spec'']"
    by simp
  from bad t1 broken t2 show ?thesis by blast
qed

subsection \<open>An identifier without a table entry\<close>



subsection \<open>The wrapper of the agents family\<close>

text \<open>
  C10. The request is put in front of the arguments exactly when
  \<^verbatim>\<open>isAgentsEndpoint(endpoint)\<close> holds; \<^verbatim>\<open>endpointType\<close> plays no part in
  that, while it takes precedence in the choice of the function. So a request whose
  \<^verbatim>\<open>endpointType\<close> is \<^verbatim>\<open>EModelEndpoint.agents\<close> and whose endpoint is not of
  the agents family has \<^verbatim>\<open>agents.buildOptions\<close> called with the three plain
  arguments, without the request.
\<close>

theorem agents_wrapper_follows_endpoint:
  assumes "normalizeConversation env req = Inr parsedBody"
  shows "(ArgReq req \<in> set (builderArgs env req parsedBody)
            \<longleftrightarrow> isAgentsEndpoint env (endpoint (body req)))
       \<and> (\<forall>f. buildFunction (EModelEndpoint env) (dispatchKey (body req)) = Some f \<longrightarrow>
              invocations (trace (buildEndpointOption env req))
                = [(f, builderArgs env req parsedBody)])
       \<and> (distinct (enumValues (EModelEndpoint env))
            \<and> endpointType (body req) = Some (agents (EModelEndpoint env))
            \<and> \<not> isAgentsEndpoint env (endpoint (body req))
          \<longrightarrow> invocations (trace (buildEndpointOption env req))
                = [(agents_buildOptions,
                    [ArgStr (endpoint (body req)), ArgConvo parsedBody,
                     ArgStr (agents (EModelEndpoint env))])])"
proof -
  have wrap: "ArgReq req \<in> set (builderArgs env req parsedBody)
            \<longleftrightarrow> isAgentsEndpoint env (endpoint (body req))"
    by (auto simp: builderArgs_def split: option.splits)
  have run: "buildEndpointOption env req = dispatchAndEnrich env req parsedBody"
    using assms by (rule run_dispatched)
  have inv: "\<forall>f. buildFunction (EModelEndpoint env) (dispatchKey (body req)) = Some f \<longrightarrow>
              invocations (trace (buildEndpointOption env req))
                = [(f, builderArgs env req parsedBody)]"
    by (simp add: run dispatch_invocations)
  have unbound: "invocations (trace (buildEndpointOption env req))
                = [(agents_buildOptions,
                    [ArgStr (endpoint (body req)), ArgConvo parsedBody,
                     ArgStr (agents (EModelEndpoint env))])]"
    if d: "distinct (enumValues (EModelEndpoint env))"
      and t: "endpointType (body req) = Some (agents (EModelEndpoint env))"
      and e: "\<not> isAgentsEndpoint env (endpoint (body req))"
  proof -
    have "buildFunction (EModelEndpoint env) (dispatchKey (body req)) = Some agents_buildOptions"
      using t buildFunction_distinct(4) [OF d] by (simp add: dispatchKey_def)
    with inv have "invocations (trace (buildEndpointOption env req))
                = [(agents_buildOptions, builderArgs env req parsedBody)]"
      by blast
    with t e show ?thesis by (simp add: builderArgs_def)
  qed
  from wrap inv unbound show ?thesis by blast
qed

theorem agents_wrapper_follows_endpoint_witness:
  "normalizeConversation exampleEnv requestAgentsType = Inr (body requestAgentsType)
   \<and> distinct (enumValues (EModelEndpoint exampleEnv))
   \<and> \<not> isAgentsEndpoint exampleEnv (endpoint (body requestAgentsType))
   \<and> endpointType (body requestAgentsType) = Some ''agents''
   \<and> endpoint (body requestAgentsType) = ''openAI''
   \<and> invocations (trace (buildEndpointOption exampleEnv requestAgentsType))
       = [(agents_buildOptions,
           [ArgStr ''openAI'', ArgConvo (body requestAgentsType), ArgStr ''agents''])]"
proof -
  have n: "normalizeConversation exampleEnv requestAgentsType = Inr (body requestAgentsType)"
    by (simp add: pipeline_defs example_defs)
  have d: "distinct (enumValues (EModelEndpoint exampleEnv))"
    by (simp add: enumValues_def example_defs)
  have t: "endpointType (body requestAgentsType) = Some (agents (EModelEndpoint exampleEnv))"
    by (simp add: example_defs)
  have e: "\<not> isAgentsEndpoint exampleEnv (endpoint (body requestAgentsType))"
    by (simp add: example_defs)
  have vals: "agents (EModelEndpoint exampleEnv) = ''agents''"
    "endpoint (body requestAgentsType) = ''openAI''"
    by (simp_all add: example_defs)
  from agents_wrapper_follows_endpoint [OF n] d t e
  have "invocations (trace (buildEndpointOption exampleEnv requestAgentsType))
       = [(agents_buildOptions,
           [ArgStr (endpoint (body requestAgentsType)), ArgConvo (body requestAgentsType),
            ArgStr (agents (EModelEndpoint exampleEnv))])]"
    by blast
  with n d e t vals show ?thesis by simp
qed

end
